theory Spec2Isabelle
  imports Main "HOL-Library.Word"
begin

unbundle bit_operations_syntax

section \<open>The epoll system-call handlers of \<^verbatim>\<open>src/main/host/syscall/epoll.c\<close>\<close>

text \<open>
  The four handlers \<^verbatim>\<open>syscallhandler_epoll_create\<close>, \<^verbatim>\<open>syscallhandler_epoll_create1\<close>,
  \<^verbatim>\<open>syscallhandler_epoll_ctl\<close> and \<^verbatim>\<open>syscallhandler_epoll_wait\<close> are embedded as HOL
  functions. Each handler is straight-line code over a handful of collaborators (the
  descriptor table of the host, the readiness engine, the memory manager of the thread,
  the scheduler). None of the collaborators is defined in \<^verbatim>\<open>epoll.c\<close>, so they are
  parameters of the model: a record \<open>collab\<close> gives, for every collaborator, the value
  it answers with during the call. What a handler does to the rest of the simulator is the
  sequence of collaborator calls it performs, in program order, with their arguments; the
  model returns that sequence together with the value the C function returns. Calls of
  the logging macro \<^verbatim>\<open>debug\<close> are left out.
\<close>

subsection \<open>Machine integers and constants\<close>

text \<open>
  \<^verbatim>\<open>gint\<close> is a 32-bit signed and \<^verbatim>\<open>guint\<close> a 32-bit unsigned integer; both are
  \<open>32 word\<close>, read with \<open>sint\<close> where the C code compares signed values and with the
  (unsigned) order of words where it compares \<^verbatim>\<open>guint\<close>s. A system-call register
  (\<^verbatim>\<open>SysCallReg\<close>, a union) is 64 bits wide; its members \<^verbatim>\<open>as_i64\<close> and
  \<^verbatim>\<open>as_ptr.val\<close> read the same 64 bits.
\<close>

type_synonym gint = "32 word"
type_synonym guint = "32 word"
type_synonym int64_t = "64 word"
type_synonym size_t = "64 word"
type_synonym SysCallReg = "64 word"
type_synonym PluginPtr = "64 word"
type_synonym hostptr = nat

text \<open>The values of \<^verbatim>\<open>errno.h\<close> and \<^verbatim>\<open>sys/epoll.h\<close> on Linux (x86-64).\<close>

definition EINVAL :: "'a::len word" where
  "EINVAL = 22"

definition EFAULT :: "'a::len word" where
  "EFAULT = 14"

definition EPOLL_CLOEXEC :: "'a::len word" where
  "EPOLL_CLOEXEC = 0x80000"

text \<open>\<^verbatim>\<open>sizeof(struct epoll_event)\<close>: the structure is packed, 4 + 8 bytes.\<close>

definition sizeof_epoll_event :: size_t where
  "sizeof_epoll_event = 12"

text \<open>
  \<^verbatim>\<open>gint x = args->args[i].as_i64\<close> keeps the low 32 bits of the register, and
  \<^verbatim>\<open>.retval.as_i64 = x\<close> for a \<^verbatim>\<open>gint x\<close> extends the sign.
\<close>

definition as_gint :: "SysCallReg \<Rightarrow> gint" where
  "as_gint r = ucast r"

definition as_i64 :: "gint \<Rightarrow> int64_t" where
  "as_i64 x = scast x"

subsection \<open>Data\<close>

text \<open>
  Only the tags \<^verbatim>\<open>DT_NONE\<close> and \<^verbatim>\<open>DT_EPOLL\<close> of the descriptor types and
  \<^verbatim>\<open>DS_READABLE\<close> of the status bits occur in the handlers; the other constructors
  stand for the remaining members of the two enumerations.
\<close>

datatype DescriptorType = DT_NONE | DT_EPOLL | DT_OTHER

datatype DescriptorStatus = DS_ACTIVE | DS_READABLE | DS_WRITABLE | DS_CLOSED

datatype SysCallReturnState = SYSCALL_DONE | SYSCALL_BLOCK

record SysCallReturn =
  state :: SysCallReturnState
  retval :: int64_t

record SysCallArgs =
  args :: "SysCallReg list"

text \<open>\<^verbatim>\<open>sys->timer\<close>, the one timer of a handler; \<open>None\<close> is the \<^verbatim>\<open>NULL\<close> timer.\<close>

datatype Timer = Sys_timer

text \<open>A failed \<^verbatim>\<open>utility_assert\<close> aborts the simulator: the handler does not return.\<close>

datatype error = AssertionFailure

subsection \<open>Collaborators\<close>

text \<open>
  \<open>'d\<close> is the type of descriptor objects; a \<^verbatim>\<open>Descriptor*\<close> is a \<open>'d option\<close>, with
  \<open>None\<close> for \<^verbatim>\<open>NULL\<close>. \<^verbatim>\<open>epoll_getEvents\<close> answers with its return value and with
  the count it stores through \<^verbatim>\<open>nEvents\<close>.
\<close>

record 'd collab =
  host_createDescriptor :: "DescriptorType \<Rightarrow> 'd option"
  host_lookupDescriptor :: "gint \<Rightarrow> 'd option"
  host_getOSHandle :: "gint \<Rightarrow> gint"
  syscallhandler_validateDescriptor :: "'d option \<Rightarrow> DescriptorType \<Rightarrow> gint"
  syscallhandler_wasBlocked :: bool
  descriptor_getHandle :: "'d \<Rightarrow> gint"
  thread_getReadablePtr :: "PluginPtr \<Rightarrow> size_t \<Rightarrow> hostptr"
  thread_getWriteablePtr :: "PluginPtr \<Rightarrow> size_t \<Rightarrow> hostptr"
  epoll_control :: "'d \<Rightarrow> gint \<Rightarrow> 'd \<Rightarrow> hostptr \<Rightarrow> gint"
  epoll_controlOS :: "'d \<Rightarrow> gint \<Rightarrow> gint \<Rightarrow> hostptr \<Rightarrow> gint"
  epoll_getNumReadyEvents :: "'d \<Rightarrow> guint"
  epoll_getEvents :: "'d \<Rightarrow> hostptr \<Rightarrow> guint \<Rightarrow> gint \<times> gint"

text \<open>One constructor for every collaborator function, with the arguments of the call.\<close>

datatype 'd call =
    Call_host_createDescriptor DescriptorType
  | Call_host_lookupDescriptor gint
  | Call_host_getOSHandle gint
  | Call_validateDescriptor "'d option" DescriptorType
  | Call_wasBlocked
  | Call_setListenTimeoutMillis gint
  | Call_process_listenForStatus "Timer option" 'd DescriptorStatus
  | Call_descriptor_addFlags 'd gint
  | Call_descriptor_getHandle 'd
  | Call_thread_getReadablePtr PluginPtr size_t
  | Call_thread_getWriteablePtr PluginPtr size_t
  | Call_epoll_control 'd gint 'd hostptr
  | Call_epoll_controlOS 'd gint gint hostptr
  | Call_epoll_getNumReadyEvents 'd
  | Call_epoll_getEvents 'd hostptr guint

type_synonym 'd handled = "'d call list \<times> (error + SysCallReturn)"

definition ret_done :: "int64_t \<Rightarrow> error + SysCallReturn" where
  "ret_done v = Inr \<lparr>state = SYSCALL_DONE, retval = v\<rparr>"

text \<open>
  \<^verbatim>\<open>(SysCallReturn){.state = SYSCALL_BLOCK}\<close>: the member that the compound literal does
  not name is zero.
\<close>

definition ret_block :: "error + SysCallReturn" where
  "ret_block = Inr \<lparr>state = SYSCALL_BLOCK, retval = 0\<rparr>"

subsection \<open>The handlers\<close>

definition syscallhandler_createEpollHelper ::
  "'d collab \<Rightarrow> int64_t \<Rightarrow> int64_t \<Rightarrow> 'd call list \<times> (error + gint)" where
  "syscallhandler_createEpollHelper c size' flags =
     (if sint size' \<le> 0 \<or> (flags \<noteq> 0 \<and> flags \<noteq> EPOLL_CLOEXEC) then ([], Inr (- EINVAL))
      else
        let desc = host_createDescriptor c DT_EPOLL;
            t1 = [Call_host_createDescriptor DT_EPOLL]
        in case desc of
             None \<Rightarrow> (t1, Inl AssertionFailure)
           | Some d \<Rightarrow>
               let t2 = t1 @ [Call_validateDescriptor (Some d) DT_EPOLL] in
               if syscallhandler_validateDescriptor c (Some d) DT_EPOLL \<noteq> 0
               then (t2, Inl AssertionFailure)
               else
                 let t3 = (if flags AND EPOLL_CLOEXEC \<noteq> 0
                           then t2 @ [Call_descriptor_addFlags d EPOLL_CLOEXEC] else t2)
                 in (t3 @ [Call_descriptor_getHandle d], Inr (descriptor_getHandle c d)))"

definition syscallhandler_epoll_create :: "'d collab \<Rightarrow> SysCallArgs \<Rightarrow> 'd handled" where
  "syscallhandler_epoll_create c a =
     (let size' = args a ! 0;
          (t, result) = syscallhandler_createEpollHelper c size' 0
      in case result of
           Inl e \<Rightarrow> (t, Inl e)
         | Inr r \<Rightarrow> (t, ret_done (as_i64 r)))"

definition syscallhandler_epoll_create1 :: "'d collab \<Rightarrow> SysCallArgs \<Rightarrow> 'd handled" where
  "syscallhandler_epoll_create1 c a =
     (let flags = args a ! 0;
          (t, result) = syscallhandler_createEpollHelper c 1 flags
      in case result of
           Inl e \<Rightarrow> (t, Inl e)
         | Inr r \<Rightarrow> (t, ret_done (as_i64 r)))"

definition syscallhandler_epoll_ctl :: "'d collab \<Rightarrow> SysCallArgs \<Rightarrow> 'd handled" where
  "syscallhandler_epoll_ctl c a =
     (let epfd = as_gint (args a ! 0);
          op = as_gint (args a ! 1);
          fd = as_gint (args a ! 2);
          eventPtr = args a ! 3
      in if eventPtr = 0 then ([], ret_done (- EFAULT))
         else if epfd = fd then ([], ret_done (- EINVAL))
         else
           let descriptor = host_lookupDescriptor c epfd;
               errorCode = syscallhandler_validateDescriptor c descriptor DT_EPOLL;
               t1 = [Call_host_lookupDescriptor epfd, Call_validateDescriptor descriptor DT_EPOLL]
           in if errorCode \<noteq> 0 then (t1, ret_done (as_i64 errorCode))
              else case descriptor of
                None \<Rightarrow> (t1, Inl AssertionFailure)
              | Some epoll \<Rightarrow>
                  let child = host_lookupDescriptor c fd;
                      errorCode = syscallhandler_validateDescriptor c child DT_NONE;
                      event = thread_getReadablePtr c eventPtr sizeof_epoll_event;
                      t2 = t1 @ [Call_host_lookupDescriptor fd, Call_validateDescriptor child DT_NONE,
                                 Call_thread_getReadablePtr eventPtr sizeof_epoll_event]
                  in if errorCode = 0 then
                       (case child of
                          None \<Rightarrow> (t2, Inl AssertionFailure)
                        | Some d \<Rightarrow>
                            (t2 @ [Call_epoll_control epoll op d event],
                             ret_done (as_i64 (epoll_control c epoll op d event))))
                     else
                       let osfd = host_getOSHandle c fd;
                           osfd = (if 0 \<le> sint osfd then osfd else fd)
                       in (t2 @ [Call_host_getOSHandle fd, Call_epoll_controlOS epoll op osfd event],
                           ret_done (as_i64 (epoll_controlOS c epoll op osfd event))))"

definition syscallhandler_epoll_wait :: "'d collab \<Rightarrow> SysCallArgs \<Rightarrow> 'd handled" where
  "syscallhandler_epoll_wait c a =
     (let epfd = as_gint (args a ! 0);
          eventsPtr = args a ! 1;
          maxevents = as_gint (args a ! 2);
          timeout_ms = as_gint (args a ! 3)
      in if sint maxevents \<le> 0 then ([], ret_done (- EINVAL))
         else if eventsPtr = 0 then ([], ret_done (- EFAULT))
         else
           let descriptor = host_lookupDescriptor c epfd;
               errorCode = syscallhandler_validateDescriptor c descriptor DT_EPOLL;
               t1 = [Call_host_lookupDescriptor epfd, Call_validateDescriptor descriptor DT_EPOLL]
           in if errorCode \<noteq> 0 then (t1, ret_done (as_i64 errorCode))
              else case descriptor of
                None \<Rightarrow> (t1, Inl AssertionFailure)
              | Some epoll \<Rightarrow>
                  let numReadyEvents = epoll_getNumReadyEvents c epoll;
                      t2 = t1 @ [Call_epoll_getNumReadyEvents epoll]
                  in if numReadyEvents = 0 then
                       (if timeout_ms = 0 then (t2, ret_done 0)
                        else if syscallhandler_wasBlocked c then (t2 @ [Call_wasBlocked], ret_done 0)
                        else
                          let t3 = t2 @ [Call_wasBlocked] @
                                (if 0 < sint timeout_ms
                                 then [Call_setListenTimeoutMillis timeout_ms] else [])
                          in (t3 @ [Call_process_listenForStatus
                                      (if 0 < sint timeout_ms then Some Sys_timer else None)
                                      epoll DS_READABLE],
                              ret_block))
                     else
                       let numEventsNeeded = min maxevents numReadyEvents;
                           sizeNeeded = sizeof_epoll_event * ucast numEventsNeeded;
                           events = thread_getWriteablePtr c eventsPtr sizeNeeded;
                           (result, nEvents) = epoll_getEvents c epoll events numEventsNeeded;
                           t3 = t2 @ [Call_thread_getWriteablePtr eventsPtr sizeNeeded,
                                      Call_epoll_getEvents epoll events numEventsNeeded]
                       in if result \<noteq> 0 then (t3, Inl AssertionFailure)
                          else (t3, ret_done (as_i64 nEvents)))"

text \<open>
  The calls by which a handler asks the scheduler to suspend the thread: arming the
  timeout of \<^verbatim>\<open>sys->timer\<close> and registering a listener for a status of a descriptor.
\<close>

fun requests_suspension :: "'d call \<Rightarrow> bool" where
  "requests_suspension (Call_setListenTimeoutMillis _) = True"
| "requests_suspension (Call_process_listenForStatus _ _ _) = True"
| "requests_suspension _ = False"

subsection \<open>The readiness engine\<close>

text \<open>
  Modelled from the spec: \<^verbatim>\<open>epoll_getNumReadyEvents\<close> and \<^verbatim>\<open>epoll_getEvents\<close> of
  \<^verbatim>\<open>main/host/descriptor/epoll.c\<close>, and the \<^verbatim>\<open>Epoll\<close> object they read, are defined
  outside \<^verbatim>\<open>main/host/syscall/epoll.c\<close>. Following the data model and the engine's operations in the
  specification: an epoll owns its watch entries in insertion order; an entry has the
  watched child, an interest mask and a 64-bit user token; the triggered mask of an entry
  is the intersection of the child's current status with the interest mask (the current
  status of the child is kept in the entry here); \<^verbatim>\<open>numReady\<close> counts the entries with a
  non-empty triggered mask; \<^verbatim>\<open>getEvents(capacity)\<close> produces, in insertion order, up to
  \<^verbatim>\<open>capacity\<close> ready events, each with the triggered mask and the token, and consumes
  nothing.
\<close>

record EpollWatch =
  watch_fd :: gint
  watch_interest :: "32 word"
  watch_token :: "64 word"
  watch_status :: "32 word"

record Descriptor =
  desc_handle :: gint
  desc_type :: DescriptorType
  desc_watches :: "EpollWatch list"

text \<open>
  Modelled from the spec: the triggered mask of a watch entry, which the engine of
  \<^verbatim>\<open>main/host/descriptor/epoll.c\<close> computes, is the intersection of the current
  status of the child with the interest mask.
\<close>

definition epollwatch_triggered :: "EpollWatch \<Rightarrow> 32 word" where
  "epollwatch_triggered w = watch_status w AND watch_interest w"

text \<open>
  Modelled from the spec: the ready events of an epoll, in the insertion order of the
  watch table, each with its triggered mask and the user token of the entry (the scan
  inside \<^verbatim>\<open>epoll_getNumReadyEvents\<close> and \<^verbatim>\<open>epoll_getEvents\<close>).
\<close>

definition epoll_readyEvents :: "Descriptor \<Rightarrow> (32 word \<times> 64 word) list" where
  "epoll_readyEvents e =
     map (\<lambda>w. (epollwatch_triggered w, watch_token w))
       (filter (\<lambda>w. epollwatch_triggered w \<noteq> 0) (desc_watches e))"

text \<open>
  Modelled from the spec: \<^verbatim>\<open>epoll_getNumReadyEvents\<close>, the count of the entries with a
  non-empty triggered mask, as the \<^verbatim>\<open>guint\<close> the C function returns.
\<close>

definition spec_epoll_getNumReadyEvents :: "Descriptor \<Rightarrow> guint" where
  "spec_epoll_getNumReadyEvents e = of_nat (length (epoll_readyEvents e))"

text \<open>
  Modelled from the spec: \<^verbatim>\<open>epoll_getEvents\<close>, which delivers the first
  \<^verbatim>\<open>eventArrayLength\<close> ready events, returns 0 and stores the number of events it
  delivered through \<^verbatim>\<open>nEvents\<close>.
\<close>

definition spec_epoll_getEvents :: "Descriptor \<Rightarrow> hostptr \<Rightarrow> guint \<Rightarrow> gint \<times> gint" where
  "spec_epoll_getEvents e events eventArrayLength =
     (0, of_nat (length (take (unat eventArrayLength) (epoll_readyEvents e))))"

subsection \<open>A concrete host\<close>

text \<open>
  A small host on which the handlers can be evaluated: handle 3 is an epoll that watches
  socket 4 for input while the socket is only writable (nothing is ready), handle 6 is an
  epoll with three entries of which two are ready, handle 7 is an OS file with OS handle
  100, and every other handle is unknown. A new descriptor gets handle 10.
\<close>

definition sample_idle_epoll :: Descriptor where
  "sample_idle_epoll = \<lparr>desc_handle = 3, desc_type = DT_EPOLL,
     desc_watches = [\<lparr>watch_fd = 4, watch_interest = 1, watch_token = 42, watch_status = 4\<rparr>]\<rparr>"

definition sample_socket :: Descriptor where
  "sample_socket = \<lparr>desc_handle = 4, desc_type = DT_OTHER, desc_watches = []\<rparr>"

definition sample_ready_epoll :: Descriptor where
  "sample_ready_epoll = \<lparr>desc_handle = 6, desc_type = DT_EPOLL,
     desc_watches = [\<lparr>watch_fd = 4, watch_interest = 1, watch_token = 42, watch_status = 5\<rparr>,
                     \<lparr>watch_fd = 8, watch_interest = 4, watch_token = 43, watch_status = 1\<rparr>,
                     \<lparr>watch_fd = 9, watch_interest = 5, watch_token = 44, watch_status = 4\<rparr>]\<rparr>"

definition sample_new_epoll :: Descriptor where
  "sample_new_epoll = \<lparr>desc_handle = 10, desc_type = DT_EPOLL, desc_watches = []\<rparr>"

definition sample_host :: "Descriptor collab" where
  "sample_host = \<lparr>
     host_createDescriptor = (\<lambda>t. Some (sample_new_epoll\<lparr>desc_type := t\<rparr>)),
     host_lookupDescriptor = (\<lambda>fd. if fd = 3 then Some sample_idle_epoll
                                else if fd = 4 then Some sample_socket
                                else if fd = 6 then Some sample_ready_epoll else None),
     host_getOSHandle = (\<lambda>fd. if fd = 7 then 100 else - 1),
     syscallhandler_validateDescriptor =
       (\<lambda>d t. case d of None \<Rightarrow> - 9
               | Some x \<Rightarrow> if t \<noteq> DT_NONE \<and> desc_type x \<noteq> t then - EINVAL else 0),
     syscallhandler_wasBlocked = False,
     descriptor_getHandle = desc_handle,
     thread_getReadablePtr = (\<lambda>p n. unat p),
     thread_getWriteablePtr = (\<lambda>p n. unat p),
     epoll_control = (\<lambda>e op d ev. 0),
     epoll_controlOS = (\<lambda>e op fd ev. 0),
     epoll_getNumReadyEvents = spec_epoll_getNumReadyEvents,
     epoll_getEvents = spec_epoll_getEvents\<rparr>"

text \<open>The same host when the scheduler re-enters a system call that had blocked.\<close>

definition sample_host_resumed :: "Descriptor collab" where
  "sample_host_resumed = sample_host\<lparr>syscallhandler_wasBlocked := True\<rparr>"

section \<open>Argument checks\<close>

text \<open>
  C5, as amended. \<^verbatim>\<open>epoll_wait\<close> with \<^verbatim>\<open>maxevents <= 0\<close> returns \<^verbatim>\<open>-EINVAL\<close>, and
  \<^verbatim>\<open>epoll_wait\<close> with \<^verbatim>\<open>maxevents > 0\<close> and a null events pointer returns
  \<^verbatim>\<open>-EFAULT\<close>; in both cases the handler returns before it calls any collaborator: no
  descriptor is looked up and the engine is not asked anything. (\<^verbatim>\<open>maxevents\<close> is the
  \<^verbatim>\<open>gint\<close> the handler reads from the third register.)
\<close>

theorem epoll_wait_rejects_arguments:
  "(sint (as_gint (args a ! 2)) \<le> 0 \<longrightarrow>
      syscallhandler_epoll_wait c a = ([], ret_done (- EINVAL))) \<and>
   (0 < sint (as_gint (args a ! 2)) \<and> args a ! 1 = 0 \<longrightarrow>
      syscallhandler_epoll_wait c a = ([], ret_done (- EFAULT)))"
  by (simp add: syscallhandler_epoll_wait_def)

theorem epoll_wait_rejects_arguments_witness:
  "syscallhandler_epoll_wait sample_host \<lparr>args = [3, 4096, 0, - 1, 0, 0]\<rparr>
     = ([], ret_done (- EINVAL)) \<and>
   syscallhandler_epoll_wait sample_host \<lparr>args = [3, 0, 10, - 1, 0, 0]\<rparr>
     = ([], ret_done (- EFAULT))"
proof -
  have "sint (as_gint (args \<lparr>args = [3, 4096, 0, - 1, 0, 0]\<rparr> ! 2)) \<le> 0"
    by (simp add: as_gint_def)
  moreover have "0 < sint (as_gint (args \<lparr>args = [3, 0, 10, - 1, 0, 0]\<rparr> ! 2)) \<and>
      args \<lparr>args = [3, 0, 10, - 1, 0, 0]\<rparr> ! 1 = 0"
    by (simp add: as_gint_def)
  ultimately show ?thesis
    using epoll_wait_rejects_arguments [of "\<lparr>args = [3, 4096, 0, - 1, 0, 0]\<rparr>" sample_host]
      epoll_wait_rejects_arguments [of "\<lparr>args = [3, 0, 10, - 1, 0, 0]\<rparr>" sample_host]
    by blast
qed

text \<open>
  C5 as stated fails: a call with a null events pointer does not return \<^verbatim>\<open>-EFAULT\<close> when
  \<^verbatim>\<open>maxevents\<close> is 0 as well; the check of \<^verbatim>\<open>maxevents\<close> comes first.
\<close>

theorem epoll_wait_null_events_counterexample:
  "args \<lparr>args = [3, 0, 0, 0, 0, 0]\<rparr> ! 1 = 0 \<and>
   syscallhandler_epoll_wait sample_host \<lparr>args = [3, 0, 0, 0, 0, 0]\<rparr>
     = ([], ret_done (- EINVAL)) \<and>
   snd (syscallhandler_epoll_wait sample_host \<lparr>args = [3, 0, 0, 0, 0, 0]\<rparr>)
     \<noteq> ret_done (- EFAULT)"
  by (simp add: syscallhandler_epoll_wait_def as_gint_def ret_done_def EINVAL_def EFAULT_def)

text \<open>
  C10. In \<^verbatim>\<open>epoll_wait\<close> the check of \<^verbatim>\<open>maxevents\<close> precedes the check of the events
  pointer: a call with \<^verbatim>\<open>maxevents <= 0\<close> and a null events pointer returns \<^verbatim>\<open>-EINVAL\<close>,
  not \<^verbatim>\<open>-EFAULT\<close>.
\<close>

theorem epoll_wait_maxevents_checked_first:
  "sint (as_gint (args a ! 2)) \<le> 0 \<and> args a ! 1 = 0 \<longrightarrow>
     snd (syscallhandler_epoll_wait c a) = ret_done (- EINVAL) \<and>
     snd (syscallhandler_epoll_wait c a) \<noteq> ret_done (- EFAULT)"
  by (simp add: syscallhandler_epoll_wait_def ret_done_def EINVAL_def EFAULT_def)

theorem epoll_wait_maxevents_checked_first_witness:
  "sint (as_gint (args \<lparr>args = [6, 0, - 5, 100, 0, 0]\<rparr> ! 2)) \<le> 0 \<and>
   args \<lparr>args = [6, 0, - 5, 100, 0, 0]\<rparr> ! 1 = 0 \<and>
   snd (syscallhandler_epoll_wait sample_host \<lparr>args = [6, 0, - 5, 100, 0, 0]\<rparr>)
     = ret_done (- EINVAL) \<and>
   snd (syscallhandler_epoll_wait sample_host \<lparr>args = [6, 0, - 5, 100, 0, 0]\<rparr>)
     \<noteq> ret_done (- EFAULT)"
proof -
  have h: "sint (as_gint (args \<lparr>args = [6, 0, - 5, 100, 0, 0]\<rparr> ! 2)) \<le> 0 \<and>
      args \<lparr>args = [6, 0, - 5, 100, 0, 0]\<rparr> ! 1 = 0"
    by (simp add: as_gint_def)
  with epoll_wait_maxevents_checked_first [of "\<lparr>args = [6, 0, - 5, 100, 0, 0]\<rparr>" sample_host]
  show ?thesis
    by blast
qed

text \<open>
  C6, as amended. \<^verbatim>\<open>epoll_ctl\<close> with a null event pointer returns \<^verbatim>\<open>-EFAULT\<close>, whatever
  the operation is (\<^verbatim>\<open>EPOLL_CTL_DEL\<close> included), and \<^verbatim>\<open>epoll_ctl\<close> with a non-null event
  pointer and \<^verbatim>\<open>epfd == fd\<close> returns \<^verbatim>\<open>-EINVAL\<close>; in both cases the handler returns
  before it calls any collaborator: neither descriptor is resolved and nothing is changed.
  (\<^verbatim>\<open>epfd\<close> and \<^verbatim>\<open>fd\<close> are the \<^verbatim>\<open>gint\<close>s the handler reads from the registers.)
\<close>

theorem epoll_ctl_rejects_arguments:
  "(args a ! 3 = 0 \<longrightarrow> syscallhandler_epoll_ctl c a = ([], ret_done (- EFAULT))) \<and>
   (args a ! 3 \<noteq> 0 \<and> as_gint (args a ! 0) = as_gint (args a ! 2) \<longrightarrow>
      syscallhandler_epoll_ctl c a = ([], ret_done (- EINVAL)))"
  by (simp add: syscallhandler_epoll_ctl_def)

theorem epoll_ctl_rejects_arguments_witness:
  "syscallhandler_epoll_ctl sample_host \<lparr>args = [3, 3, 4, 0, 0, 0]\<rparr>
     = ([], ret_done (- EFAULT)) \<and>
   syscallhandler_epoll_ctl sample_host \<lparr>args = [3, 1, 3, 4096, 0, 0]\<rparr>
     = ([], ret_done (- EINVAL))"
proof -
  have "args \<lparr>args = [3, 3, 4, 0, 0, 0]\<rparr> ! 3 = 0"
    by simp
  moreover have "args \<lparr>args = [3, 1, 3, 4096, 0, 0]\<rparr> ! 3 \<noteq> 0 \<and>
      as_gint (args \<lparr>args = [3, 1, 3, 4096, 0, 0]\<rparr> ! 0)
        = as_gint (args \<lparr>args = [3, 1, 3, 4096, 0, 0]\<rparr> ! 2)"
    by simp
  ultimately show ?thesis
    using epoll_ctl_rejects_arguments [of "\<lparr>args = [3, 3, 4, 0, 0, 0]\<rparr>" sample_host]
      epoll_ctl_rejects_arguments [of "\<lparr>args = [3, 1, 3, 4096, 0, 0]\<rparr>" sample_host]
    by blast
qed

text \<open>
  C6 as stated fails: a call with \<^verbatim>\<open>epfd == fd\<close> does not return \<^verbatim>\<open>-EINVAL\<close> when its
  event pointer is null; the check of the pointer comes first and the call returns
  \<^verbatim>\<open>-EFAULT\<close>.
\<close>

theorem epoll_ctl_same_fd_counterexample:
  "as_gint (args \<lparr>args = [3, 1, 3, 0, 0, 0]\<rparr> ! 0) = as_gint (args \<lparr>args = [3, 1, 3, 0, 0, 0]\<rparr> ! 2) \<and>
   syscallhandler_epoll_ctl sample_host \<lparr>args = [3, 1, 3, 0, 0, 0]\<rparr>
     = ([], ret_done (- EFAULT)) \<and>
   snd (syscallhandler_epoll_ctl sample_host \<lparr>args = [3, 1, 3, 0, 0, 0]\<rparr>)
     \<noteq> ret_done (- EINVAL)"
  by (simp add: syscallhandler_epoll_ctl_def as_gint_def ret_done_def EINVAL_def EFAULT_def)

section \<open>Creating an epoll\<close>

lemma as_i64_minus_EINVAL: "as_i64 (- EINVAL) = - EINVAL"
  by (simp add: as_i64_def EINVAL_def)

lemma as_i64_nonneg_not_EINVAL:
  assumes "0 \<le> sint h"
  shows "as_i64 h \<noteq> - EINVAL"
proof
  assume e: "as_i64 h = - EINVAL"
  have "sint (as_i64 h) = sint h"
    by (simp add: as_i64_def sint_up_scast is_up)
  moreover have "sint (- EINVAL :: 64 word) = - 22"
    by (simp add: EINVAL_def)
  ultimately show False
    using assms e by simp
qed

lemma createEpollHelper_rejects:
  "sint size' \<le> 0 \<or> (flags \<noteq> 0 \<and> flags \<noteq> EPOLL_CLOEXEC) \<Longrightarrow>
     syscallhandler_createEpollHelper c size' flags = ([], Inr (- EINVAL))"
  by (simp add: syscallhandler_createEpollHelper_def)

lemma createEpollHelper_allocates:
  assumes "0 < sint size'" and "flags = 0 \<or> flags = EPOLL_CLOEXEC"
    and "host_createDescriptor c DT_EPOLL = Some d"
    and "syscallhandler_validateDescriptor c (Some d) DT_EPOLL = 0"
  shows "syscallhandler_createEpollHelper c size' flags =
           ([Call_host_createDescriptor DT_EPOLL, Call_validateDescriptor (Some d) DT_EPOLL]
              @ (if flags = EPOLL_CLOEXEC then [Call_descriptor_addFlags d EPOLL_CLOEXEC] else [])
              @ [Call_descriptor_getHandle d],
            Inr (descriptor_getHandle c d))"
  using assms by (auto simp add: syscallhandler_createEpollHelper_def EPOLL_CLOEXEC_def)

lemma createEpollHelper_returns:
  assumes "host_createDescriptor c DT_EPOLL = Some d"
    and "syscallhandler_validateDescriptor c (Some d) DT_EPOLL = 0"
  shows "\<exists>r. snd (syscallhandler_createEpollHelper c size' flags) = Inr r"
  using assms by (simp add: syscallhandler_createEpollHelper_def Let_def)

text \<open>
  C8. The creation path shared by \<^verbatim>\<open>epoll_create\<close> and \<^verbatim>\<open>epoll_create1\<close> returns
  \<^verbatim>\<open>-EINVAL\<close>, and allocates nothing, when \<^verbatim>\<open>epoll_create\<close> is given a size \<open>\<le> 0\<close> or
  \<^verbatim>\<open>epoll_create1\<close> is given flags other than 0 and \<^verbatim>\<open>EPOLL_CLOEXEC\<close>. Otherwise (and
  when the descriptor table hands out a descriptor that validates as an epoll, as the
  helper asserts) it allocates one descriptor of type \<^verbatim>\<open>DT_EPOLL\<close> and returns its
  handle; the size does not occur in the result, and \<^verbatim>\<open>EPOLL_CLOEXEC\<close> is added to the
  flags of the new descriptor exactly when \<^verbatim>\<open>epoll_create1\<close> was given it. Handles of
  the descriptor table are not negative, so \<^verbatim>\<open>-EINVAL\<close> is returned exactly in the two
  rejected cases.
\<close>

theorem epoll_create_paths:
  "(sint (args a ! 0) \<le> 0 \<longrightarrow>
      syscallhandler_epoll_create c a = ([], ret_done (- EINVAL))) \<and>
   (args a ! 0 \<noteq> 0 \<and> args a ! 0 \<noteq> EPOLL_CLOEXEC \<longrightarrow>
      syscallhandler_epoll_create1 c a = ([], ret_done (- EINVAL))) \<and>
   (host_createDescriptor c DT_EPOLL = Some d \<and>
    syscallhandler_validateDescriptor c (Some d) DT_EPOLL = 0 \<longrightarrow>
      (0 < sint (args a ! 0) \<longrightarrow>
         syscallhandler_epoll_create c a =
           ([Call_host_createDescriptor DT_EPOLL, Call_validateDescriptor (Some d) DT_EPOLL,
             Call_descriptor_getHandle d],
            ret_done (as_i64 (descriptor_getHandle c d)))) \<and>
      (args a ! 0 = 0 \<longrightarrow>
         syscallhandler_epoll_create1 c a =
           ([Call_host_createDescriptor DT_EPOLL, Call_validateDescriptor (Some d) DT_EPOLL,
             Call_descriptor_getHandle d],
            ret_done (as_i64 (descriptor_getHandle c d)))) \<and>
      (args a ! 0 = EPOLL_CLOEXEC \<longrightarrow>
         syscallhandler_epoll_create1 c a =
           ([Call_host_createDescriptor DT_EPOLL, Call_validateDescriptor (Some d) DT_EPOLL,
             Call_descriptor_addFlags d EPOLL_CLOEXEC, Call_descriptor_getHandle d],
            ret_done (as_i64 (descriptor_getHandle c d)))) \<and>
      (0 \<le> sint (descriptor_getHandle c d) \<longrightarrow>
         (snd (syscallhandler_epoll_create c a) = ret_done (- EINVAL)
            \<longleftrightarrow> sint (args a ! 0) \<le> 0) \<and>
         (snd (syscallhandler_epoll_create1 c a) = ret_done (- EINVAL)
            \<longleftrightarrow> args a ! 0 \<noteq> 0 \<and> args a ! 0 \<noteq> EPOLL_CLOEXEC)))"
proof -
  have one: "0 < sint (1 :: 64 word)"
    by simp
  have cloexec: "(EPOLL_CLOEXEC :: 64 word) \<noteq> 0"
    by (simp add: EPOLL_CLOEXEC_def)
  have rej: "sint (args a ! 0) \<le> 0 \<Longrightarrow>
      syscallhandler_epoll_create c a = ([], ret_done (- EINVAL))"
    by (simp add: syscallhandler_epoll_create_def createEpollHelper_rejects as_i64_minus_EINVAL)
  have rej1: "args a ! 0 \<noteq> 0 \<and> args a ! 0 \<noteq> EPOLL_CLOEXEC \<Longrightarrow>
      syscallhandler_epoll_create1 c a = ([], ret_done (- EINVAL))"
    by (simp add: syscallhandler_epoll_create1_def createEpollHelper_rejects as_i64_minus_EINVAL)
  have alloc: "syscallhandler_epoll_create c a =
      ([Call_host_createDescriptor DT_EPOLL, Call_validateDescriptor (Some d) DT_EPOLL,
        Call_descriptor_getHandle d], ret_done (as_i64 (descriptor_getHandle c d)))"
    if "host_createDescriptor c DT_EPOLL = Some d"
      and "syscallhandler_validateDescriptor c (Some d) DT_EPOLL = 0"
      and "0 < sint (args a ! 0)"
    using that cloexec
    by (simp add: syscallhandler_epoll_create_def createEpollHelper_allocates [where d = d])
  have alloc1: "syscallhandler_epoll_create1 c a =
      ([Call_host_createDescriptor DT_EPOLL, Call_validateDescriptor (Some d) DT_EPOLL]
         @ (if args a ! 0 = EPOLL_CLOEXEC then [Call_descriptor_addFlags d EPOLL_CLOEXEC] else [])
         @ [Call_descriptor_getHandle d], ret_done (as_i64 (descriptor_getHandle c d)))"
    if "host_createDescriptor c DT_EPOLL = Some d"
      and "syscallhandler_validateDescriptor c (Some d) DT_EPOLL = 0"
      and "args a ! 0 = 0 \<or> args a ! 0 = EPOLL_CLOEXEC"
    using that one
    by (simp add: syscallhandler_epoll_create1_def createEpollHelper_allocates [where d = d])
  have differ: "ret_done (as_i64 (descriptor_getHandle c d)) \<noteq> ret_done (- EINVAL)"
    if "0 \<le> sint (descriptor_getHandle c d)"
    using as_i64_nonneg_not_EINVAL [OF that] by (simp add: ret_done_def)
  have iff: "snd (syscallhandler_epoll_create c a) = ret_done (- EINVAL)
      \<longleftrightarrow> sint (args a ! 0) \<le> 0"
    if "host_createDescriptor c DT_EPOLL = Some d"
      and "syscallhandler_validateDescriptor c (Some d) DT_EPOLL = 0"
      and "0 \<le> sint (descriptor_getHandle c d)"
  proof (cases "sint (args a ! 0) \<le> 0")
    case True
    then show ?thesis
      by (simp add: rej)
  next
    case False
    then have "0 < sint (args a ! 0)"
      by simp
    with that False show ?thesis
      by (simp add: alloc differ)
  qed
  have iff1: "snd (syscallhandler_epoll_create1 c a) = ret_done (- EINVAL)
      \<longleftrightarrow> args a ! 0 \<noteq> 0 \<and> args a ! 0 \<noteq> EPOLL_CLOEXEC"
    if "host_createDescriptor c DT_EPOLL = Some d"
      and "syscallhandler_validateDescriptor c (Some d) DT_EPOLL = 0"
      and "0 \<le> sint (descriptor_getHandle c d)"
  proof (cases "args a ! 0 = 0 \<or> args a ! 0 = EPOLL_CLOEXEC")
    case True
    with that have "snd (syscallhandler_epoll_create1 c a)
        = ret_done (as_i64 (descriptor_getHandle c d))"
      by (simp add: alloc1)
    with that True show ?thesis
      by (auto simp add: differ)
  next
    case False
    then show ?thesis
      by (simp add: rej1)
  qed
  show ?thesis
  proof (intro conjI impI)
    assume "sint (args a ! 0) \<le> 0"
    then show "syscallhandler_epoll_create c a = ([], ret_done (- EINVAL))"
      by (rule rej)
  next
    assume "args a ! 0 \<noteq> 0 \<and> args a ! 0 \<noteq> EPOLL_CLOEXEC"
    then show "syscallhandler_epoll_create1 c a = ([], ret_done (- EINVAL))"
      by (rule rej1)
  next
    assume "host_createDescriptor c DT_EPOLL = Some d \<and>
        syscallhandler_validateDescriptor c (Some d) DT_EPOLL = 0"
      and "0 < sint (args a ! 0)"
    then show "syscallhandler_epoll_create c a =
        ([Call_host_createDescriptor DT_EPOLL, Call_validateDescriptor (Some d) DT_EPOLL,
          Call_descriptor_getHandle d], ret_done (as_i64 (descriptor_getHandle c d)))"
      by (simp add: alloc)
  next
    assume "host_createDescriptor c DT_EPOLL = Some d \<and>
        syscallhandler_validateDescriptor c (Some d) DT_EPOLL = 0"
      and "args a ! 0 = 0"
    then show "syscallhandler_epoll_create1 c a =
        ([Call_host_createDescriptor DT_EPOLL, Call_validateDescriptor (Some d) DT_EPOLL,
          Call_descriptor_getHandle d], ret_done (as_i64 (descriptor_getHandle c d)))"
      using cloexec by (simp add: alloc1)
  next
    assume "host_createDescriptor c DT_EPOLL = Some d \<and>
        syscallhandler_validateDescriptor c (Some d) DT_EPOLL = 0"
      and "args a ! 0 = EPOLL_CLOEXEC"
    then show "syscallhandler_epoll_create1 c a =
        ([Call_host_createDescriptor DT_EPOLL, Call_validateDescriptor (Some d) DT_EPOLL,
          Call_descriptor_addFlags d EPOLL_CLOEXEC, Call_descriptor_getHandle d],
         ret_done (as_i64 (descriptor_getHandle c d)))"
      by (simp add: alloc1)
  next
    assume "host_createDescriptor c DT_EPOLL = Some d \<and>
        syscallhandler_validateDescriptor c (Some d) DT_EPOLL = 0"
      and "0 \<le> sint (descriptor_getHandle c d)"
    then show "snd (syscallhandler_epoll_create c a) = ret_done (- EINVAL)
        \<longleftrightarrow> sint (args a ! 0) \<le> 0"
      by (simp add: iff)
  next
    assume "host_createDescriptor c DT_EPOLL = Some d \<and>
        syscallhandler_validateDescriptor c (Some d) DT_EPOLL = 0"
      and "0 \<le> sint (descriptor_getHandle c d)"
    then show "snd (syscallhandler_epoll_create1 c a) = ret_done (- EINVAL)
        \<longleftrightarrow> args a ! 0 \<noteq> 0 \<and> args a ! 0 \<noteq> EPOLL_CLOEXEC"
      by (simp add: iff1)
  qed
qed

theorem epoll_create_paths_witness:
  "syscallhandler_epoll_create sample_host \<lparr>args = [0, 0, 0, 0, 0, 0]\<rparr>
     = ([], ret_done (- EINVAL)) \<and>
   syscallhandler_epoll_create1 sample_host \<lparr>args = [1, 0, 0, 0, 0, 0]\<rparr>
     = ([], ret_done (- EINVAL)) \<and>
   syscallhandler_epoll_create sample_host \<lparr>args = [1000, 0, 0, 0, 0, 0]\<rparr>
     = ([Call_host_createDescriptor DT_EPOLL,
         Call_validateDescriptor (Some sample_new_epoll) DT_EPOLL,
         Call_descriptor_getHandle sample_new_epoll], ret_done 10) \<and>
   syscallhandler_epoll_create1 sample_host \<lparr>args = [EPOLL_CLOEXEC, 0, 0, 0, 0, 0]\<rparr>
     = ([Call_host_createDescriptor DT_EPOLL,
         Call_validateDescriptor (Some sample_new_epoll) DT_EPOLL,
         Call_descriptor_addFlags sample_new_epoll EPOLL_CLOEXEC,
         Call_descriptor_getHandle sample_new_epoll], ret_done 10) \<and>
   snd (syscallhandler_epoll_create sample_host \<lparr>args = [1000, 0, 0, 0, 0, 0]\<rparr>)
     \<noteq> ret_done (- EINVAL)"
proof -
  have table: "host_createDescriptor sample_host DT_EPOLL = Some sample_new_epoll \<and>
      syscallhandler_validateDescriptor sample_host (Some sample_new_epoll) DT_EPOLL = 0"
    by code_simp
  have zero: "sint (args \<lparr>args = [0, 0, 0, 0, 0, 0]\<rparr> ! 0) \<le> 0"
    by simp
  have one: "args \<lparr>args = [1, 0, 0, 0, 0, 0]\<rparr> ! 0 \<noteq> 0 \<and>
      args \<lparr>args = [1, 0, 0, 0, 0, 0]\<rparr> ! 0 \<noteq> EPOLL_CLOEXEC"
    by (simp add: EPOLL_CLOEXEC_def)
  have big: "0 < sint (args \<lparr>args = [1000, 0, 0, 0, 0, 0]\<rparr> ! 0)"
      "\<not> sint (args \<lparr>args = [1000, 0, 0, 0, 0, 0]\<rparr> ! 0) \<le> 0"
    by simp_all
  have cloexec: "args \<lparr>args = [EPOLL_CLOEXEC, 0, 0, 0, 0, 0]\<rparr> ! 0 = EPOLL_CLOEXEC"
    by simp
  have handle: "0 \<le> sint (descriptor_getHandle sample_host sample_new_epoll)"
      "as_i64 (descriptor_getHandle sample_host sample_new_epoll) = 10"
    by code_simp+
  have "syscallhandler_epoll_create sample_host \<lparr>args = [0, 0, 0, 0, 0, 0]\<rparr>
      = ([], ret_done (- EINVAL))"
    using epoll_create_paths [of "\<lparr>args = [0, 0, 0, 0, 0, 0]\<rparr>" sample_host] zero
    by blast
  moreover have "syscallhandler_epoll_create1 sample_host \<lparr>args = [1, 0, 0, 0, 0, 0]\<rparr>
      = ([], ret_done (- EINVAL))"
    using epoll_create_paths [of "\<lparr>args = [1, 0, 0, 0, 0, 0]\<rparr>" sample_host] one
    by blast
  moreover have "syscallhandler_epoll_create sample_host \<lparr>args = [1000, 0, 0, 0, 0, 0]\<rparr>
      = ([Call_host_createDescriptor DT_EPOLL,
          Call_validateDescriptor (Some sample_new_epoll) DT_EPOLL,
          Call_descriptor_getHandle sample_new_epoll],
         ret_done (as_i64 (descriptor_getHandle sample_host sample_new_epoll))) \<and>
      snd (syscallhandler_epoll_create sample_host \<lparr>args = [1000, 0, 0, 0, 0, 0]\<rparr>)
        \<noteq> ret_done (- EINVAL)"
    using epoll_create_paths
        [of "\<lparr>args = [1000, 0, 0, 0, 0, 0]\<rparr>" sample_host sample_new_epoll]
      table big handle(1)
    by blast
  moreover have "syscallhandler_epoll_create1 sample_host
        \<lparr>args = [EPOLL_CLOEXEC, 0, 0, 0, 0, 0]\<rparr>
      = ([Call_host_createDescriptor DT_EPOLL,
          Call_validateDescriptor (Some sample_new_epoll) DT_EPOLL,
          Call_descriptor_addFlags sample_new_epoll EPOLL_CLOEXEC,
          Call_descriptor_getHandle sample_new_epoll],
         ret_done (as_i64 (descriptor_getHandle sample_host sample_new_epoll)))"
    using epoll_create_paths
        [of "\<lparr>args = [EPOLL_CLOEXEC, 0, 0, 0, 0, 0]\<rparr>" sample_host sample_new_epoll]
      table cloexec
    by blast
  ultimately show ?thesis
    unfolding handle(2) by blast
qed

section \<open>Dispatch of \<^verbatim>\<open>epoll_ctl\<close>\<close>

text \<open>
  C7. Take an \<^verbatim>\<open>epoll_ctl\<close> call that passes the argument checks (non-null event
  pointer, \<^verbatim>\<open>epfd != fd\<close>) and whose \<^verbatim>\<open>epfd\<close> resolves to a valid epoll. The handler
  looks \<^verbatim>\<open>fd\<close> up, validates it against \<^verbatim>\<open>DT_NONE\<close> and obtains the event of the caller.
  If \<^verbatim>\<open>fd\<close> resolves to a simulated descriptor, the handler calls \<^verbatim>\<open>epoll_control\<close> on
  the epoll with that descriptor and returns its result. Otherwise it asks the host for
  the OS handle of \<^verbatim>\<open>fd\<close>, takes \<^verbatim>\<open>fd\<close> itself when the answer is negative, and calls
  \<^verbatim>\<open>epoll_controlOS\<close> with that number, returning its result.
\<close>

theorem epoll_ctl_dispatch:
  assumes "args a ! 3 \<noteq> 0" and "as_gint (args a ! 0) \<noteq> as_gint (args a ! 2)"
    and "host_lookupDescriptor c (as_gint (args a ! 0)) = Some epoll"
    and "syscallhandler_validateDescriptor c (Some epoll) DT_EPOLL = 0"
  shows "(let epfd = as_gint (args a ! 0); op = as_gint (args a ! 1); fd = as_gint (args a ! 2);
              child = host_lookupDescriptor c fd;
              event = thread_getReadablePtr c (args a ! 3) sizeof_epoll_event;
              resolved = [Call_host_lookupDescriptor epfd,
                          Call_validateDescriptor (Some epoll) DT_EPOLL,
                          Call_host_lookupDescriptor fd, Call_validateDescriptor child DT_NONE,
                          Call_thread_getReadablePtr (args a ! 3) sizeof_epoll_event];
              mapped = host_getOSHandle c fd;
              osfd = (if 0 \<le> sint mapped then mapped else fd)
          in (\<forall>d. child = Some d \<and> syscallhandler_validateDescriptor c child DT_NONE = 0 \<longrightarrow>
                  syscallhandler_epoll_ctl c a =
                    (resolved @ [Call_epoll_control epoll op d event],
                     ret_done (as_i64 (epoll_control c epoll op d event)))) \<and>
             (syscallhandler_validateDescriptor c child DT_NONE \<noteq> 0 \<longrightarrow>
                  syscallhandler_epoll_ctl c a =
                    (resolved @ [Call_host_getOSHandle fd,
                                 Call_epoll_controlOS epoll op osfd event],
                     ret_done (as_i64 (epoll_controlOS c epoll op osfd event)))))"
  using assms by (simp add: syscallhandler_epoll_ctl_def Let_def)

theorem epoll_ctl_dispatch_witness:
  "syscallhandler_epoll_ctl sample_host \<lparr>args = [3, 1, 4, 4096, 0, 0]\<rparr> =
     ([Call_host_lookupDescriptor 3, Call_validateDescriptor (Some sample_idle_epoll) DT_EPOLL,
       Call_host_lookupDescriptor 4, Call_validateDescriptor (Some sample_socket) DT_NONE,
       Call_thread_getReadablePtr 4096 12,
       Call_epoll_control sample_idle_epoll 1 sample_socket 4096], ret_done 0) \<and>
   syscallhandler_epoll_ctl sample_host \<lparr>args = [3, 1, 7, 4096, 0, 0]\<rparr> =
     ([Call_host_lookupDescriptor 3, Call_validateDescriptor (Some sample_idle_epoll) DT_EPOLL,
       Call_host_lookupDescriptor 7, Call_validateDescriptor None DT_NONE,
       Call_thread_getReadablePtr 4096 12, Call_host_getOSHandle 7,
       Call_epoll_controlOS sample_idle_epoll 1 100 4096], ret_done 0) \<and>
   syscallhandler_epoll_ctl sample_host \<lparr>args = [3, 1, 8, 4096, 0, 0]\<rparr> =
     ([Call_host_lookupDescriptor 3, Call_validateDescriptor (Some sample_idle_epoll) DT_EPOLL,
       Call_host_lookupDescriptor 8, Call_validateDescriptor None DT_NONE,
       Call_thread_getReadablePtr 4096 12, Call_host_getOSHandle 8,
       Call_epoll_controlOS sample_idle_epoll 1 8 4096], ret_done 0)"
proof -
  let ?sock = "\<lparr>args = [3, 1, 4, 4096, 0, 0]\<rparr>"
  let ?osfile = "\<lparr>args = [3, 1, 7, 4096, 0, 0]\<rparr>"
  let ?raw = "\<lparr>args = [3, 1, 8, 4096, 0, 0]\<rparr>"
  have sock: "args ?sock ! 3 \<noteq> 0" "as_gint (args ?sock ! 0) \<noteq> as_gint (args ?sock ! 2)"
      "host_lookupDescriptor sample_host (as_gint (args ?sock ! 0)) = Some sample_idle_epoll"
      "syscallhandler_validateDescriptor sample_host (Some sample_idle_epoll) DT_EPOLL = 0"
    by code_simp+
  have osfile: "args ?osfile ! 3 \<noteq> 0" "as_gint (args ?osfile ! 0) \<noteq> as_gint (args ?osfile ! 2)"
      "host_lookupDescriptor sample_host (as_gint (args ?osfile ! 0)) = Some sample_idle_epoll"
      "syscallhandler_validateDescriptor sample_host (Some sample_idle_epoll) DT_EPOLL = 0"
    by code_simp+
  have raw: "args ?raw ! 3 \<noteq> 0" "as_gint (args ?raw ! 0) \<noteq> as_gint (args ?raw ! 2)"
      "host_lookupDescriptor sample_host (as_gint (args ?raw ! 0)) = Some sample_idle_epoll"
      "syscallhandler_validateDescriptor sample_host (Some sample_idle_epoll) DT_EPOLL = 0"
    by code_simp+
  have evals: "as_gint 3 = 3" "as_gint 1 = 1" "as_gint 4 = 4" "as_gint 7 = 7" "as_gint 8 = 8"
      "sizeof_epoll_event = 12"
      "host_lookupDescriptor sample_host 4 = Some sample_socket"
      "host_lookupDescriptor sample_host 7 = None"
      "host_lookupDescriptor sample_host 8 = None"
      "syscallhandler_validateDescriptor sample_host (Some sample_socket) DT_NONE = 0"
      "syscallhandler_validateDescriptor sample_host None DT_NONE \<noteq> 0"
      "thread_getReadablePtr sample_host 4096 12 = 4096"
      "host_getOSHandle sample_host 7 = 100" "(0::int) \<le> sint (100 :: gint)"
      "\<not> 0 \<le> sint (host_getOSHandle sample_host 8)"
      "as_i64 (epoll_control sample_host sample_idle_epoll 1 sample_socket 4096) = 0"
      "as_i64 (epoll_controlOS sample_host sample_idle_epoll 1 100 4096) = 0"
      "as_i64 (epoll_controlOS sample_host sample_idle_epoll 1 8 4096) = 0"
    by code_simp+
  show ?thesis
    using epoll_ctl_dispatch [OF sock] epoll_ctl_dispatch [OF osfile] epoll_ctl_dispatch [OF raw]
    by (simp add: Let_def evals)
qed

section \<open>Readiness in \<^verbatim>\<open>epoll_wait\<close>\<close>

text \<open>
  C1, as amended. Take an \<^verbatim>\<open>epoll_wait\<close> call with \<^verbatim>\<open>maxevents > 0\<close> and a non-null
  events pointer on a valid epoll descriptor with no ready event. If \<^verbatim>\<open>timeout_ms == 0\<close>
  or the call is a resumed one (\<^verbatim>\<open>_syscallhandler_wasBlocked\<close> holds), the handler returns
  \<^verbatim>\<open>DONE\<close> with result 0 at once: after the query of the engine it calls nothing but the
  test of the flag (and not even that when the timeout is 0), so it arms no timeout and
  registers no listener.
\<close>

theorem epoll_wait_nothing_ready_returns_zero:
  assumes "0 < sint (as_gint (args a ! 2))" and "args a ! 1 \<noteq> 0"
    and "host_lookupDescriptor c (as_gint (args a ! 0)) = Some epoll"
    and "syscallhandler_validateDescriptor c (Some epoll) DT_EPOLL = 0"
    and "epoll_getNumReadyEvents c epoll = 0"
    and "as_gint (args a ! 3) = 0 \<or> syscallhandler_wasBlocked c"
  shows "syscallhandler_epoll_wait c a =
           ([Call_host_lookupDescriptor (as_gint (args a ! 0)),
             Call_validateDescriptor (Some epoll) DT_EPOLL,
             Call_epoll_getNumReadyEvents epoll]
              @ (if as_gint (args a ! 3) = 0 then [] else [Call_wasBlocked]),
            ret_done 0) \<and>
         \<not> list_ex requests_suspension (fst (syscallhandler_epoll_wait c a))"
  using assms by (auto simp add: syscallhandler_epoll_wait_def)

theorem epoll_wait_nothing_ready_returns_zero_witness:
  "syscallhandler_epoll_wait sample_host \<lparr>args = [3, 4096, 10, 0, 0, 0]\<rparr> =
     ([Call_host_lookupDescriptor 3, Call_validateDescriptor (Some sample_idle_epoll) DT_EPOLL,
       Call_epoll_getNumReadyEvents sample_idle_epoll], ret_done 0) \<and>
   syscallhandler_epoll_wait sample_host_resumed \<lparr>args = [3, 4096, 10, - 1, 0, 0]\<rparr> =
     ([Call_host_lookupDescriptor 3, Call_validateDescriptor (Some sample_idle_epoll) DT_EPOLL,
       Call_epoll_getNumReadyEvents sample_idle_epoll, Call_wasBlocked], ret_done 0) \<and>
   \<not> list_ex requests_suspension
       (fst (syscallhandler_epoll_wait sample_host_resumed \<lparr>args = [3, 4096, 10, - 1, 0, 0]\<rparr>))"
proof -
  let ?poll = "\<lparr>args = [3, 4096, 10, 0, 0, 0]\<rparr>"
  let ?again = "\<lparr>args = [3, 4096, 10, - 1, 0, 0]\<rparr>"
  have poll: "0 < sint (as_gint (args ?poll ! 2))" "args ?poll ! 1 \<noteq> 0"
      "host_lookupDescriptor sample_host (as_gint (args ?poll ! 0)) = Some sample_idle_epoll"
      "syscallhandler_validateDescriptor sample_host (Some sample_idle_epoll) DT_EPOLL = 0"
      "epoll_getNumReadyEvents sample_host sample_idle_epoll = 0"
      "as_gint (args ?poll ! 3) = 0 \<or> syscallhandler_wasBlocked sample_host"
    by code_simp+
  have again: "0 < sint (as_gint (args ?again ! 2))" "args ?again ! 1 \<noteq> 0"
      "host_lookupDescriptor sample_host_resumed (as_gint (args ?again ! 0))
         = Some sample_idle_epoll"
      "syscallhandler_validateDescriptor sample_host_resumed (Some sample_idle_epoll) DT_EPOLL = 0"
      "epoll_getNumReadyEvents sample_host_resumed sample_idle_epoll = 0"
      "as_gint (args ?again ! 3) = 0 \<or> syscallhandler_wasBlocked sample_host_resumed"
    by code_simp+
  have evals: "as_gint 3 = 3" "as_gint 0 = 0" "as_gint (- 1) \<noteq> 0"
    by code_simp+
  show ?thesis
    using epoll_wait_nothing_ready_returns_zero [OF poll]
      epoll_wait_nothing_ready_returns_zero [OF again]
    by (simp add: evals)
qed

text \<open>
  C1 as stated fails: handle 3 is a valid epoll with no ready event and the timeout is 0,
  but \<^verbatim>\<open>maxevents\<close> is 0, and the handler returns \<^verbatim>\<open>-EINVAL\<close> instead of 0. The check
  of the arguments comes before the descriptor is looked at.
\<close>

theorem epoll_wait_zero_timeout_counterexample:
  "host_lookupDescriptor sample_host (as_gint (args \<lparr>args = [3, 4096, 0, 0, 0, 0]\<rparr> ! 0))
     = Some sample_idle_epoll \<and>
   syscallhandler_validateDescriptor sample_host (Some sample_idle_epoll) DT_EPOLL = 0 \<and>
   epoll_getNumReadyEvents sample_host sample_idle_epoll = 0 \<and>
   as_gint (args \<lparr>args = [3, 4096, 0, 0, 0, 0]\<rparr> ! 3) = 0 \<and>
   syscallhandler_epoll_wait sample_host \<lparr>args = [3, 4096, 0, 0, 0, 0]\<rparr>
     = ([], ret_done (- EINVAL)) \<and>
   snd (syscallhandler_epoll_wait sample_host \<lparr>args = [3, 4096, 0, 0, 0, 0]\<rparr>) \<noteq> ret_done 0"
  by code_simp

text \<open>
  C3, as amended. Take a first-attempt \<^verbatim>\<open>epoll_wait\<close> call (\<^verbatim>\<open>_syscallhandler_wasBlocked\<close>
  does not hold) with \<^verbatim>\<open>maxevents > 0\<close> and a non-null events pointer on a valid epoll
  descriptor with no ready event, and \<^verbatim>\<open>timeout_ms != 0\<close>. The handler registers a
  listener for \<^verbatim>\<open>DS_READABLE\<close> on the epoll itself and returns \<^verbatim>\<open>BLOCK\<close>. When
  \<^verbatim>\<open>timeout_ms > 0\<close> it first arms the timeout with \<^verbatim>\<open>timeout_ms\<close> and passes
  \<^verbatim>\<open>sys->timer\<close> to the listener; when \<^verbatim>\<open>timeout_ms\<close> is negative it arms nothing and
  passes no timer.
\<close>

theorem epoll_wait_first_attempt_blocks:
  assumes "0 < sint (as_gint (args a ! 2))" and "args a ! 1 \<noteq> 0"
    and "host_lookupDescriptor c (as_gint (args a ! 0)) = Some epoll"
    and "syscallhandler_validateDescriptor c (Some epoll) DT_EPOLL = 0"
    and "epoll_getNumReadyEvents c epoll = 0"
    and "as_gint (args a ! 3) \<noteq> 0" and "\<not> syscallhandler_wasBlocked c"
  shows "syscallhandler_epoll_wait c a =
           ([Call_host_lookupDescriptor (as_gint (args a ! 0)),
             Call_validateDescriptor (Some epoll) DT_EPOLL,
             Call_epoll_getNumReadyEvents epoll,
             Call_wasBlocked]
              @ (if 0 < sint (as_gint (args a ! 3))
                 then [Call_setListenTimeoutMillis (as_gint (args a ! 3))] else [])
              @ [Call_process_listenForStatus
                   (if 0 < sint (as_gint (args a ! 3)) then Some Sys_timer else None)
                   epoll DS_READABLE],
            ret_block)"
  using assms by (simp add: syscallhandler_epoll_wait_def)

theorem epoll_wait_first_attempt_blocks_witness:
  "syscallhandler_epoll_wait sample_host \<lparr>args = [3, 4096, 10, 250, 0, 0]\<rparr> =
     ([Call_host_lookupDescriptor 3, Call_validateDescriptor (Some sample_idle_epoll) DT_EPOLL,
       Call_epoll_getNumReadyEvents sample_idle_epoll, Call_wasBlocked,
       Call_setListenTimeoutMillis 250,
       Call_process_listenForStatus (Some Sys_timer) sample_idle_epoll DS_READABLE],
      ret_block) \<and>
   syscallhandler_epoll_wait sample_host \<lparr>args = [3, 4096, 10, - 1, 0, 0]\<rparr> =
     ([Call_host_lookupDescriptor 3, Call_validateDescriptor (Some sample_idle_epoll) DT_EPOLL,
       Call_epoll_getNumReadyEvents sample_idle_epoll, Call_wasBlocked,
       Call_process_listenForStatus None sample_idle_epoll DS_READABLE],
      ret_block)"
proof -
  let ?timed = "\<lparr>args = [3, 4096, 10, 250, 0, 0]\<rparr>"
  let ?forever = "\<lparr>args = [3, 4096, 10, - 1, 0, 0]\<rparr>"
  have timed: "0 < sint (as_gint (args ?timed ! 2))" "args ?timed ! 1 \<noteq> 0"
      "host_lookupDescriptor sample_host (as_gint (args ?timed ! 0)) = Some sample_idle_epoll"
      "syscallhandler_validateDescriptor sample_host (Some sample_idle_epoll) DT_EPOLL = 0"
      "epoll_getNumReadyEvents sample_host sample_idle_epoll = 0"
      "as_gint (args ?timed ! 3) \<noteq> 0" "\<not> syscallhandler_wasBlocked sample_host"
    by code_simp+
  have forever: "0 < sint (as_gint (args ?forever ! 2))" "args ?forever ! 1 \<noteq> 0"
      "host_lookupDescriptor sample_host (as_gint (args ?forever ! 0)) = Some sample_idle_epoll"
      "syscallhandler_validateDescriptor sample_host (Some sample_idle_epoll) DT_EPOLL = 0"
      "epoll_getNumReadyEvents sample_host sample_idle_epoll = 0"
      "as_gint (args ?forever ! 3) \<noteq> 0" "\<not> syscallhandler_wasBlocked sample_host"
    by code_simp+
  have evals: "as_gint 3 = 3" "as_gint 250 = 250" "\<not> 0 < sint (as_gint (- 1))"
    by code_simp+
  show ?thesis
    using epoll_wait_first_attempt_blocks [OF timed]
      epoll_wait_first_attempt_blocks [OF forever]
    by (simp add: evals)
qed

text \<open>
  C3 as stated fails: a first attempt on the valid epoll 3, which has no ready event, with
  an infinite timeout but a null events pointer returns \<^verbatim>\<open>DONE\<close> with \<^verbatim>\<open>-EFAULT\<close>; it
  does not block and registers nothing.
\<close>

theorem epoll_wait_null_events_never_blocks_counterexample:
  "host_lookupDescriptor sample_host (as_gint (args \<lparr>args = [3, 0, 10, - 1, 0, 0]\<rparr> ! 0))
     = Some sample_idle_epoll \<and>
   syscallhandler_validateDescriptor sample_host (Some sample_idle_epoll) DT_EPOLL = 0 \<and>
   epoll_getNumReadyEvents sample_host sample_idle_epoll = 0 \<and>
   as_gint (args \<lparr>args = [3, 0, 10, - 1, 0, 0]\<rparr> ! 3) \<noteq> 0 \<and>
   \<not> syscallhandler_wasBlocked sample_host \<and>
   syscallhandler_epoll_wait sample_host \<lparr>args = [3, 0, 10, - 1, 0, 0]\<rparr>
     = ([], ret_done (- EFAULT)) \<and>
   snd (syscallhandler_epoll_wait sample_host \<lparr>args = [3, 0, 10, - 1, 0, 0]\<rparr>) \<noteq> ret_block"
  by code_simp

text \<open>Facts about 32-bit integers that the size and the count of the delivery need.\<close>

lemma gint_positive_uint:
  fixes x :: gint
  assumes "0 < sint x"
  shows "uint x = sint x"
proof -
  have "sint x < 2 ^ 32"
    using sint_lt [of x] by simp
  with assms have "take_bit 32 (sint x) = sint x"
    by (simp add: take_bit_int_eq_self)
  then show ?thesis
    using uint_sint [of x] by simp
qed

lemma gint_le_positive_sint:
  fixes n x :: gint
  assumes "0 < sint x" and "n \<le> x"
  shows "sint n = uint n"
proof -
  have "uint n \<le> uint x"
    using assms(2) by (simp add: word_le_def)
  also have "uint x = sint x"
    using assms(1) by (rule gint_positive_uint)
  also have "sint x < 2 ^ 31"
    using sint_lt [of x] by simp
  finally have small: "uint n < 2 ^ 31" .
  have "0 \<le> uint n"
    by simp
  moreover have "(0::int) < 2 ^ 31"
    by simp
  ultimately have "- (2 ^ 31) \<le> uint n"
    by linarith
  then have "signed_take_bit 31 (uint n) = uint n"
    using small by (rule signed_take_bit_int_eq_self)
  then show ?thesis
    by (simp add: sint_uint)
qed

lemma sizeNeeded_exact:
  fixes n :: guint
  shows "unat (sizeof_epoll_event * ucast n) = 12 * unat n"
proof -
  have small: "unat n < 2 ^ 32"
    using unsigned_less [of n] by simp
  have up: "unat (ucast n :: 64 word) = unat n"
    using small by (simp add: unsigned_ucast_eq take_bit_nat_eq_self)
  have "unat (12 :: 64 word) * unat (ucast n :: 64 word) < 2 ^ LENGTH(64)"
    using small by (simp add: up)
  then have "unat (12 * (ucast n :: 64 word)) = unat (12 :: 64 word) * unat (ucast n :: 64 word)"
    by (simp only: unat_mult_lem)
  then show ?thesis
    by (simp add: sizeof_epoll_event_def up)
qed

lemma spec_getEvents_count:
  assumes "n \<le> spec_epoll_getNumReadyEvents e"
  shows "length (take (unat n) (epoll_readyEvents e)) = unat n"
proof -
  have "unat n \<le> unat (spec_epoll_getNumReadyEvents e)"
    using assms by (simp add: word_le_nat_alt)
  also have "\<dots> \<le> length (epoll_readyEvents e)"
    by (simp add: spec_epoll_getNumReadyEvents_def unat_of_nat)
  finally show ?thesis
    by simp
qed

text \<open>
  C4, as amended, with the engine of the specification. Take an \<^verbatim>\<open>epoll_wait\<close> call with
  \<^verbatim>\<open>maxevents > 0\<close> and a non-null events pointer on a valid epoll descriptor with at
  least one ready event. The handler computes \<open>n\<close>, the smaller of \<^verbatim>\<open>maxevents\<close> and the
  number of ready events, asks the memory manager for a writable window of
  \<^verbatim>\<open>sizeof(struct epoll_event)\<close> times \<open>n\<close> bytes at the events pointer (the product
  does not wrap), calls \<^verbatim>\<open>epoll_getEvents\<close> with that window and the capacity \<open>n\<close>, and
  returns \<^verbatim>\<open>DONE\<close> with the count the engine reports, which is \<open>n\<close>: the engine has
  exactly \<open>n\<close> events to deliver.
\<close>

theorem epoll_wait_delivers_ready_events:
  fixes c :: "Descriptor collab"
  assumes "epoll_getNumReadyEvents c = spec_epoll_getNumReadyEvents"
    and "epoll_getEvents c = spec_epoll_getEvents"
    and "0 < sint (as_gint (args a ! 2))" and "args a ! 1 \<noteq> 0"
    and "host_lookupDescriptor c (as_gint (args a ! 0)) = Some epoll"
    and "syscallhandler_validateDescriptor c (Some epoll) DT_EPOLL = 0"
    and "spec_epoll_getNumReadyEvents epoll \<noteq> 0"
  shows "(let maxevents = as_gint (args a ! 2);
              n = min maxevents (spec_epoll_getNumReadyEvents epoll);
              sizeNeeded = sizeof_epoll_event * ucast n;
              events = thread_getWriteablePtr c (args a ! 1) sizeNeeded
          in syscallhandler_epoll_wait c a =
               ([Call_host_lookupDescriptor (as_gint (args a ! 0)),
                 Call_validateDescriptor (Some epoll) DT_EPOLL,
                 Call_epoll_getNumReadyEvents epoll,
                 Call_thread_getWriteablePtr (args a ! 1) sizeNeeded,
                 Call_epoll_getEvents epoll events n],
                ret_done (as_i64 n)) \<and>
             unat sizeNeeded = 12 * unat n \<and>
             length (take (unat n) (epoll_readyEvents epoll)) = unat n \<and>
             sint (as_i64 n) = min (sint maxevents) (uint (spec_epoll_getNumReadyEvents epoll)))"
proof -
  define maxevents where "maxevents = as_gint (args a ! 2)"
  define n where "n = min maxevents (spec_epoll_getNumReadyEvents epoll)"
  have pos: "0 < sint maxevents"
    using assms(3) by (simp add: maxevents_def)
  have count: "length (take (unat n) (epoll_readyEvents epoll)) = unat n"
    by (rule spec_getEvents_count) (simp add: n_def)
  then have reported: "spec_epoll_getEvents epoll ev n = (0, n)" for ev
    by (simp add: spec_epoll_getEvents_def)
  have run: "syscallhandler_epoll_wait c a =
      ([Call_host_lookupDescriptor (as_gint (args a ! 0)),
        Call_validateDescriptor (Some epoll) DT_EPOLL,
        Call_epoll_getNumReadyEvents epoll,
        Call_thread_getWriteablePtr (args a ! 1) (sizeof_epoll_event * ucast n),
        Call_epoll_getEvents epoll
          (thread_getWriteablePtr c (args a ! 1) (sizeof_epoll_event * ucast n)) n],
       ret_done (as_i64 n))"
    using assms reported
    by (simp add: syscallhandler_epoll_wait_def Let_def n_def maxevents_def)
  have "sint n = uint n"
    using pos by (rule gint_le_positive_sint) (simp add: n_def)
  moreover have "uint n = min (uint maxevents) (uint (spec_epoll_getNumReadyEvents epoll))"
    by (simp add: n_def min_def word_le_def)
  moreover have "uint maxevents = sint maxevents"
    using pos by (rule gint_positive_uint)
  moreover have "sint (as_i64 n) = sint n"
    by (simp add: as_i64_def sint_up_scast is_up)
  ultimately have val:
    "sint (as_i64 n) = min (sint maxevents) (uint (spec_epoll_getNumReadyEvents epoll))"
    by simp
  show ?thesis
    using run count val sizeNeeded_exact [of n]
    by (simp add: Let_def n_def maxevents_def)
qed

theorem epoll_wait_delivers_ready_events_witness:
  "syscallhandler_epoll_wait sample_host \<lparr>args = [6, 4096, 10, - 1, 0, 0]\<rparr> =
     ([Call_host_lookupDescriptor 6, Call_validateDescriptor (Some sample_ready_epoll) DT_EPOLL,
       Call_epoll_getNumReadyEvents sample_ready_epoll,
       Call_thread_getWriteablePtr 4096 24,
       Call_epoll_getEvents sample_ready_epoll 4096 2],
      ret_done 2) \<and>
   syscallhandler_epoll_wait sample_host \<lparr>args = [6, 4096, 1, 0, 0, 0]\<rparr> =
     ([Call_host_lookupDescriptor 6, Call_validateDescriptor (Some sample_ready_epoll) DT_EPOLL,
       Call_epoll_getNumReadyEvents sample_ready_epoll,
       Call_thread_getWriteablePtr 4096 12,
       Call_epoll_getEvents sample_ready_epoll 4096 1],
      ret_done 1)"
proof -
  let ?roomy = "\<lparr>args = [6, 4096, 10, - 1, 0, 0]\<rparr>"
  let ?tight = "\<lparr>args = [6, 4096, 1, 0, 0, 0]\<rparr>"
  have engine: "epoll_getNumReadyEvents sample_host = spec_epoll_getNumReadyEvents"
      "epoll_getEvents sample_host = spec_epoll_getEvents"
    by (simp_all add: sample_host_def)
  have roomy: "0 < sint (as_gint (args ?roomy ! 2))" "args ?roomy ! 1 \<noteq> 0"
      "host_lookupDescriptor sample_host (as_gint (args ?roomy ! 0)) = Some sample_ready_epoll"
      "syscallhandler_validateDescriptor sample_host (Some sample_ready_epoll) DT_EPOLL = 0"
      "spec_epoll_getNumReadyEvents sample_ready_epoll \<noteq> 0"
    by code_simp+
  have tight: "0 < sint (as_gint (args ?tight ! 2))" "args ?tight ! 1 \<noteq> 0"
      "host_lookupDescriptor sample_host (as_gint (args ?tight ! 0)) = Some sample_ready_epoll"
      "syscallhandler_validateDescriptor sample_host (Some sample_ready_epoll) DT_EPOLL = 0"
      "spec_epoll_getNumReadyEvents sample_ready_epoll \<noteq> 0"
    by code_simp+
  have evals: "as_gint 6 = 6"
      "min (as_gint 10) (spec_epoll_getNumReadyEvents sample_ready_epoll) = 2"
      "min (as_gint 1) (spec_epoll_getNumReadyEvents sample_ready_epoll) = 1"
      "sizeof_epoll_event = 12"
      "thread_getWriteablePtr sample_host 4096 24 = 4096"
      "thread_getWriteablePtr sample_host 4096 12 = 4096"
      "as_i64 2 = 2" "as_i64 1 = 1"
    by code_simp+
  show ?thesis
    using epoll_wait_delivers_ready_events [OF engine roomy]
      epoll_wait_delivers_ready_events [OF engine tight]
    by (simp add: Let_def evals)
qed

text \<open>
  C4 as stated fails: handle 6 is a valid epoll with two ready events, but \<^verbatim>\<open>maxevents\<close>
  is 0. The smaller of \<^verbatim>\<open>maxevents\<close> and the number of ready events is 0; the handler
  returns \<^verbatim>\<open>-EINVAL\<close>, not 0, and asks neither for a window nor for events.
\<close>

theorem epoll_wait_no_capacity_counterexample:
  "host_lookupDescriptor sample_host (as_gint (args \<lparr>args = [6, 4096, 0, - 1, 0, 0]\<rparr> ! 0))
     = Some sample_ready_epoll \<and>
   syscallhandler_validateDescriptor sample_host (Some sample_ready_epoll) DT_EPOLL = 0 \<and>
   epoll_getNumReadyEvents sample_host sample_ready_epoll = 2 \<and>
   min (as_gint (args \<lparr>args = [6, 4096, 0, - 1, 0, 0]\<rparr> ! 2))
       (epoll_getNumReadyEvents sample_host sample_ready_epoll) = 0 \<and>
   syscallhandler_epoll_wait sample_host \<lparr>args = [6, 4096, 0, - 1, 0, 0]\<rparr>
     = ([], ret_done (- EINVAL)) \<and>
   snd (syscallhandler_epoll_wait sample_host \<lparr>args = [6, 4096, 0, - 1, 0, 0]\<rparr>)
     \<noteq> ret_done (as_i64 0)"
  by code_simp

text \<open>
  C2. Take an \<^verbatim>\<open>epoll_wait\<close> call that is evaluated again after it had blocked
  (\<^verbatim>\<open>_syscallhandler_wasBlocked\<close> holds). Whatever its arguments and whatever the
  collaborators answer, the handler does not return \<^verbatim>\<open>BLOCK\<close>: unless an assertion
  fails, it returns \<^verbatim>\<open>DONE\<close>, and it neither arms a timeout nor registers a listener.
  When the call gets as far as the query of the engine (arguments accepted, valid epoll),
  it returns \<^verbatim>\<open>DONE\<close> with 0 if nothing is ready, whatever the timeout is, and
  otherwise \<^verbatim>\<open>DONE\<close> with the count of the events that \<^verbatim>\<open>epoll_getEvents\<close> delivered.
\<close>

theorem epoll_wait_resumed_never_blocks:
  assumes "syscallhandler_wasBlocked c"
  shows "(snd (syscallhandler_epoll_wait c a) = Inl AssertionFailure \<or>
            (\<exists>v. snd (syscallhandler_epoll_wait c a) = ret_done v)) \<and>
         \<not> list_ex requests_suspension (fst (syscallhandler_epoll_wait c a)) \<and>
         (0 < sint (as_gint (args a ! 2)) \<and> args a ! 1 \<noteq> 0 \<and>
          host_lookupDescriptor c (as_gint (args a ! 0)) = Some epoll \<and>
          syscallhandler_validateDescriptor c (Some epoll) DT_EPOLL = 0 \<longrightarrow>
            (epoll_getNumReadyEvents c epoll = 0 \<longrightarrow>
               snd (syscallhandler_epoll_wait c a) = ret_done 0) \<and>
            (epoll_getNumReadyEvents c epoll \<noteq> 0 \<longrightarrow>
               (let n = min (as_gint (args a ! 2)) (epoll_getNumReadyEvents c epoll);
                    events = thread_getWriteablePtr c (args a ! 1) (sizeof_epoll_event * ucast n)
                in fst (epoll_getEvents c epoll events n) = 0 \<longrightarrow>
                   last (fst (syscallhandler_epoll_wait c a))
                     = Call_epoll_getEvents epoll events n \<and>
                   snd (syscallhandler_epoll_wait c a)
                     = ret_done (as_i64 (snd (epoll_getEvents c epoll events n))))))"
proof (intro conjI)
  show "snd (syscallhandler_epoll_wait c a) = Inl AssertionFailure \<or>
      (\<exists>v. snd (syscallhandler_epoll_wait c a) = ret_done v)"
    using assms
    by (simp add: syscallhandler_epoll_wait_def Let_def ret_done_def
        split: option.split prod.split)
  show "\<not> list_ex requests_suspension (fst (syscallhandler_epoll_wait c a))"
    using assms
    by (simp add: syscallhandler_epoll_wait_def Let_def split: option.split prod.split)
  show "0 < sint (as_gint (args a ! 2)) \<and> args a ! 1 \<noteq> 0 \<and>
          host_lookupDescriptor c (as_gint (args a ! 0)) = Some epoll \<and>
          syscallhandler_validateDescriptor c (Some epoll) DT_EPOLL = 0 \<longrightarrow>
            (epoll_getNumReadyEvents c epoll = 0 \<longrightarrow>
               snd (syscallhandler_epoll_wait c a) = ret_done 0) \<and>
            (epoll_getNumReadyEvents c epoll \<noteq> 0 \<longrightarrow>
               (let n = min (as_gint (args a ! 2)) (epoll_getNumReadyEvents c epoll);
                    events = thread_getWriteablePtr c (args a ! 1) (sizeof_epoll_event * ucast n)
                in fst (epoll_getEvents c epoll events n) = 0 \<longrightarrow>
                   last (fst (syscallhandler_epoll_wait c a))
                     = Call_epoll_getEvents epoll events n \<and>
                   snd (syscallhandler_epoll_wait c a)
                     = ret_done (as_i64 (snd (epoll_getEvents c epoll events n)))))"
    using assms
    by (auto simp add: syscallhandler_epoll_wait_def Let_def split: prod.split)
qed

theorem epoll_wait_resumed_never_blocks_witness:
  "syscallhandler_wasBlocked sample_host_resumed \<and>
   as_gint (args \<lparr>args = [3, 4096, 10, - 1, 0, 0]\<rparr> ! 3) = - 1 \<and>
   snd (syscallhandler_epoll_wait sample_host_resumed \<lparr>args = [3, 4096, 10, - 1, 0, 0]\<rparr>)
     = ret_done 0 \<and>
   \<not> list_ex requests_suspension
       (fst (syscallhandler_epoll_wait sample_host_resumed \<lparr>args = [3, 4096, 10, - 1, 0, 0]\<rparr>)) \<and>
   snd (syscallhandler_epoll_wait sample_host_resumed \<lparr>args = [6, 4096, 10, - 1, 0, 0]\<rparr>)
     = ret_done 2 \<and>
   last (fst (syscallhandler_epoll_wait sample_host_resumed \<lparr>args = [6, 4096, 10, - 1, 0, 0]\<rparr>))
     = Call_epoll_getEvents sample_ready_epoll 4096 2"
proof -
  let ?idle = "\<lparr>args = [3, 4096, 10, - 1, 0, 0]\<rparr>"
  let ?ready = "\<lparr>args = [6, 4096, 10, - 1, 0, 0]\<rparr>"
  have flag: "syscallhandler_wasBlocked sample_host_resumed"
    by code_simp
  have idle: "0 < sint (as_gint (args ?idle ! 2)) \<and> args ?idle ! 1 \<noteq> 0 \<and>
      host_lookupDescriptor sample_host_resumed (as_gint (args ?idle ! 0))
        = Some sample_idle_epoll \<and>
      syscallhandler_validateDescriptor sample_host_resumed (Some sample_idle_epoll) DT_EPOLL = 0"
      "epoll_getNumReadyEvents sample_host_resumed sample_idle_epoll = 0"
      "as_gint (args ?idle ! 3) = - 1"
    by code_simp+
  have ready: "0 < sint (as_gint (args ?ready ! 2)) \<and> args ?ready ! 1 \<noteq> 0 \<and>
      host_lookupDescriptor sample_host_resumed (as_gint (args ?ready ! 0))
        = Some sample_ready_epoll \<and>
      syscallhandler_validateDescriptor sample_host_resumed (Some sample_ready_epoll) DT_EPOLL = 0"
      "epoll_getNumReadyEvents sample_host_resumed sample_ready_epoll \<noteq> 0"
    by code_simp+
  have evals: "min (as_gint 10) (epoll_getNumReadyEvents sample_host_resumed sample_ready_epoll) = 2"
      "sizeof_epoll_event = 12"
      "thread_getWriteablePtr sample_host_resumed 4096 24 = 4096"
      "epoll_getEvents sample_host_resumed sample_ready_epoll 4096 2 = (0, 2)"
      "as_i64 2 = 2"
    by code_simp+
  have "snd (syscallhandler_epoll_wait sample_host_resumed ?idle) = ret_done 0 \<and>
      \<not> list_ex requests_suspension (fst (syscallhandler_epoll_wait sample_host_resumed ?idle))"
    using epoll_wait_resumed_never_blocks [OF flag, of ?idle sample_idle_epoll] idle
    by blast
  moreover have "snd (syscallhandler_epoll_wait sample_host_resumed ?ready) = ret_done 2 \<and>
      last (fst (syscallhandler_epoll_wait sample_host_resumed ?ready))
        = Call_epoll_getEvents sample_ready_epoll 4096 2"
    using epoll_wait_resumed_never_blocks [OF flag, of ?ready sample_ready_epoll] ready
    by (simp add: Let_def evals)
  ultimately show ?thesis
    using flag idle(3) by simp
qed

section \<open>Control state of the handlers\<close>

lemma error_is_AssertionFailure: "e = AssertionFailure"
  by (cases e) simp

lemma epoll_create_done:
  "snd (syscallhandler_epoll_create c a) = Inl AssertionFailure \<or>
     (\<exists>v. snd (syscallhandler_epoll_create c a) = ret_done v)"
proof (cases "syscallhandler_createEpollHelper c (args a ! 0) 0")
  case (Pair t result)
  then show ?thesis
    by (cases result) (auto simp add: syscallhandler_epoll_create_def error_is_AssertionFailure)
qed

lemma epoll_create1_done:
  "snd (syscallhandler_epoll_create1 c a) = Inl AssertionFailure \<or>
     (\<exists>v. snd (syscallhandler_epoll_create1 c a) = ret_done v)"
proof (cases "syscallhandler_createEpollHelper c 1 (args a ! 0)")
  case (Pair t result)
  then show ?thesis
    by (cases result) (auto simp add: syscallhandler_epoll_create1_def error_is_AssertionFailure)
qed

lemma epoll_ctl_done:
  "snd (syscallhandler_epoll_ctl c a) = Inl AssertionFailure \<or>
     (\<exists>v. snd (syscallhandler_epoll_ctl c a) = ret_done v)"
  by (simp add: syscallhandler_epoll_ctl_def Let_def ret_done_def split: option.split)

lemma epoll_ctl_returns:
  assumes "\<forall>t. syscallhandler_validateDescriptor c None t \<noteq> 0"
  shows "\<exists>v. snd (syscallhandler_epoll_ctl c a) = ret_done v"
  using assms
  by (auto simp add: syscallhandler_epoll_ctl_def Let_def ret_done_def split: option.split)

text \<open>
  C9. \<^verbatim>\<open>epoll_create\<close>, \<^verbatim>\<open>epoll_create1\<close> and \<^verbatim>\<open>epoll_ctl\<close> never return
  \<^verbatim>\<open>BLOCK\<close>: for every input and whatever the collaborators answer, each of them either
  returns with the control state \<^verbatim>\<open>DONE\<close> or stops at a failed assertion. No assertion
  fails, and so the handler does return \<^verbatim>\<open>DONE\<close>, when the descriptor table hands out
  a descriptor that validates as an epoll (for the two creating calls) and when a null
  descriptor never validates (for \<^verbatim>\<open>epoll_ctl\<close>). \<^verbatim>\<open>epoll_wait\<close> is the handler that can
  return \<^verbatim>\<open>BLOCK\<close>: it does so for a first attempt with an infinite timeout on an epoll
  that has nothing ready.
\<close>

theorem only_epoll_wait_blocks:
  "(snd (syscallhandler_epoll_create c a) = Inl AssertionFailure \<or>
      (\<exists>v. snd (syscallhandler_epoll_create c a) = ret_done v)) \<and>
   (snd (syscallhandler_epoll_create1 c a) = Inl AssertionFailure \<or>
      (\<exists>v. snd (syscallhandler_epoll_create1 c a) = ret_done v)) \<and>
   (snd (syscallhandler_epoll_ctl c a) = Inl AssertionFailure \<or>
      (\<exists>v. snd (syscallhandler_epoll_ctl c a) = ret_done v)) \<and>
   (host_createDescriptor c DT_EPOLL = Some d \<and>
    syscallhandler_validateDescriptor c (Some d) DT_EPOLL = 0 \<longrightarrow>
      (\<exists>v. snd (syscallhandler_epoll_create c a) = ret_done v) \<and>
      (\<exists>v. snd (syscallhandler_epoll_create1 c a) = ret_done v)) \<and>
   ((\<forall>t. syscallhandler_validateDescriptor c None t \<noteq> 0) \<longrightarrow>
      (\<exists>v. snd (syscallhandler_epoll_ctl c a) = ret_done v)) \<and>
   snd (syscallhandler_epoll_wait sample_host \<lparr>args = [3, 4096, 10, - 1, 0, 0]\<rparr>) = ret_block"
proof -
  have created: "(\<exists>v. snd (syscallhandler_epoll_create c a) = ret_done v) \<and>
      (\<exists>v. snd (syscallhandler_epoll_create1 c a) = ret_done v)"
    if ok: "host_createDescriptor c DT_EPOLL = Some d"
      "syscallhandler_validateDescriptor c (Some d) DT_EPOLL = 0"
  proof
    obtain r where "snd (syscallhandler_createEpollHelper c (args a ! 0) 0) = Inr r"
      using createEpollHelper_returns [OF ok] by blast
    then show "\<exists>v. snd (syscallhandler_epoll_create c a) = ret_done v"
      by (cases "syscallhandler_createEpollHelper c (args a ! 0) 0")
        (simp add: syscallhandler_epoll_create_def ret_done_def)
    obtain r1 where "snd (syscallhandler_createEpollHelper c 1 (args a ! 0)) = Inr r1"
      using createEpollHelper_returns [OF ok] by blast
    then show "\<exists>v. snd (syscallhandler_epoll_create1 c a) = ret_done v"
      by (cases "syscallhandler_createEpollHelper c 1 (args a ! 0)")
        (simp add: syscallhandler_epoll_create1_def ret_done_def)
  qed
  have blocks: "snd (syscallhandler_epoll_wait sample_host \<lparr>args = [3, 4096, 10, - 1, 0, 0]\<rparr>)
      = ret_block"
    by code_simp
  show ?thesis
    using epoll_create_done [of c a] epoll_create1_done [of c a] epoll_ctl_done [of c a]
      created epoll_ctl_returns [of c a] blocks
    by blast
qed

theorem only_epoll_wait_blocks_witness:
  "host_createDescriptor sample_host DT_EPOLL = Some sample_new_epoll \<and>
   syscallhandler_validateDescriptor sample_host (Some sample_new_epoll) DT_EPOLL = 0 \<and>
   (\<exists>v. snd (syscallhandler_epoll_create sample_host \<lparr>args = [1, 0, 0, 0, 0, 0]\<rparr>)
      = ret_done v) \<and>
   (\<exists>v. snd (syscallhandler_epoll_create1 sample_host \<lparr>args = [1, 0, 0, 0, 0, 0]\<rparr>)
      = ret_done v) \<and>
   (\<exists>v. snd (syscallhandler_epoll_ctl sample_host \<lparr>args = [1, 0, 0, 0, 0, 0]\<rparr>)
      = ret_done v)"
proof -
  have table: "host_createDescriptor sample_host DT_EPOLL = Some sample_new_epoll \<and>
      syscallhandler_validateDescriptor sample_host (Some sample_new_epoll) DT_EPOLL = 0"
    by code_simp
  have null: "\<forall>t. syscallhandler_validateDescriptor sample_host None t \<noteq> 0"
    by (simp add: sample_host_def)
  show ?thesis
    using only_epoll_wait_blocks [of sample_host "\<lparr>args = [1, 0, 0, 0, 0, 0]\<rparr>" sample_new_epoll]
      table null
    by blast
qed


end
